theory Spec2Isabelle
  imports Complex_Main "HOL-Library.Sublist" "HOL-Library.Multiset"
begin

section \<open>Python values used by the HyperLoop suite\<close>

text \<open>
  Exceptions are values. \<open>RuntimeError\<close> carries the message the source gives it;
  \<open>ValueError\<close>, \<open>TypeError\<close> and \<open>AttributeError\<close> are raised by the interpreter
  (\<open>max\<close> of an empty list, \<open>float\<close> of a malformed literal, a comparison with
  \<open>None\<close>, a format of \<open>None\<close>); \<open>EnvError\<close> stands for an exception coming from the
  operating system or a library while a run is launched.
\<close>

datatype py_error =
    RuntimeError string
  | ValueError
  | TypeError
  | AttributeError
  | EnvError string

text \<open>
  A Python \<open>float\<close> is read as an extended rational: the exact value of the decimal
  literal, or one of the two infinities (\<open>float("inf")\<close> is the default objective of
  the leaderboard). Rounding to a double and NaN are outside this model; no pattern of
  the log parser can produce NaN.
\<close>

datatype pyfloat = NegInf | Fin rat | PosInf

instantiation pyfloat :: linorder
begin

fun less_eq_pyfloat :: "pyfloat \<Rightarrow> pyfloat \<Rightarrow> bool" where
  "less_eq_pyfloat NegInf _ = True"
| "less_eq_pyfloat (Fin a) NegInf = False"
| "less_eq_pyfloat (Fin a) (Fin b) = (a \<le> b)"
| "less_eq_pyfloat (Fin a) PosInf = True"
| "less_eq_pyfloat PosInf PosInf = True"
| "less_eq_pyfloat PosInf _ = False"

definition less_pyfloat :: "pyfloat \<Rightarrow> pyfloat \<Rightarrow> bool" where
  "less_pyfloat x y = (x \<le> y \<and> \<not> y \<le> (x::pyfloat))"

instance
proof
  fix x y z :: pyfloat
  show "(x < y) = (x \<le> y \<and> \<not> y \<le> x)"
    by (simp add: less_pyfloat_def)
  show "x \<le> x"
    by (cases x) simp_all
  show "x \<le> y \<Longrightarrow> y \<le> z \<Longrightarrow> x \<le> z"
    by (cases x; cases y; cases z) simp_all
  show "x \<le> y \<Longrightarrow> y \<le> x \<Longrightarrow> x = y"
    by (cases x; cases y) simp_all
  show "x \<le> y \<or> y \<le> x"
    by (cases x; cases y) auto
qed

end

section \<open>Results, failures and the leaderboard (DataHandling)\<close>

text \<open>
  The metrics dictionary of \<open>parse_result_data\<close>: every key is optional, so every
  field is an option (\<open>None\<close>: the key is not in the dictionary).
\<close>

record metrics =
  total_trades :: "nat option"
  wins_draws_losses :: "string option"
  win_rate :: "rat option"
  avg_profit :: "rat option"
  median_profit :: "rat option"
  total_profit :: "rat option"
  profit_percent :: "rat option"
  avg_duration :: "string option"
  m_objective :: "rat option"
  max_drawdown :: "string option"

text \<open>
  The \<open>"objective"\<close> entry of a result dictionary, as \<open>x.get("objective", float("inf"))\<close>
  sees it: the key may be missing (the default applies), present with the value \<open>None\<close>
  (what \<open>parse_log_file\<close> stores when the log has no objective: \<open>get\<close> returns
  \<open>None\<close>, not the default), or present with a number.
\<close>

datatype objective_entry = Missing | Null | Num pyfloat

record result =
  run :: string
  profit :: rat
  objective :: objective_entry
  drawdown :: "string option"
  metrics :: metrics

text \<open>
  A failure record. Its \<open>"error"\<close> and \<open>"error_type"\<close> entries are \<open>str(error)\<close> and
  \<open>type(error).__name__\<close>; the record keeps the exception both are computed from.
  The timestamp is \<open>datetime.now().isoformat()\<close>, an input of the model.
\<close>

record failure =
  run_id :: nat
  timestamp :: string
  error :: py_error

text \<open>
  The file \<open>top_results.json\<close>: missing, present but not decodable (\<open>read_text\<close> or
  \<open>json.loads\<close> raises), or a document, which is modelled by the state it decodes to.
\<close>

datatype json_file = NoFile | Undecodable | Document "result list" "failure list"

text \<open>
  The state of a \<open>DataHandling\<close> object: \<open>self.data\<close> (its two lists), the results file,
  and whether the file system accepts a write (\<open>save_data\<close> catches \<open>OSError\<close>).
\<close>

record handler =
  top_results :: "result list"
  failed_runs :: "failure list"
  results_file :: json_file
  writable :: bool

subsection \<open>Start-up: \<open>__init__\<close>, \<open>clean_data_file\<close>, \<open>load_data\<close>\<close>

text \<open>
  \<open>DataHandling.py\<close>, lines 22 to 50 and 105 to 116.
  \<open>__init__\<close> removes the results file if it exists, empties the results folder
  (\<open>clear_old_results\<close>, which touches neither the file nor \<open>self.data\<close> and is
  not modelled) and then loads.
\<close>

definition clean_data_file :: "json_file \<Rightarrow> json_file" where
  "clean_data_file f = (if f \<noteq> NoFile then NoFile else f)"

definition load_data :: "json_file \<Rightarrow> result list \<times> failure list" where
  "load_data f = (case f of Document ts fs \<Rightarrow> (ts, fs) | _ \<Rightarrow> ([], []))"

definition init :: "json_file \<Rightarrow> bool \<Rightarrow> handler" where
  "init f w =
     (let f' = clean_data_file f;
          d = load_data f'
      in \<lparr>top_results = fst d, failed_runs = snd d, results_file = f', writable = w\<rparr>)"

subsection \<open>Mutators\<close>

text \<open>
  \<open>DataHandling.py\<close>, lines 94 to 166: \<open>save_data\<close>, \<open>add_result\<close>,
  \<open>update_top_results\<close>, \<open>record_failure\<close>, \<open>get_top_results\<close>.
\<close>

definition save_data :: "handler \<Rightarrow> handler" where
  "save_data h =
     (if writable h then h\<lparr>results_file := Document (top_results h) (failed_runs h)\<rparr> else h)"

text \<open>\<open>x.get("objective", float("inf"))\<close>; the result \<open>None\<close> is Python's \<open>None\<close>.\<close>

definition get_objective :: "result \<Rightarrow> pyfloat option" where
  "get_objective x =
     (case objective x of Missing \<Rightarrow> Some PosInf | Null \<Rightarrow> None | Num v \<Rightarrow> Some v)"

text \<open>\<open>a < b\<close> on two such values: a comparison with \<open>None\<close> raises \<open>TypeError\<close>.\<close>

definition py_lt :: "pyfloat option \<Rightarrow> pyfloat option \<Rightarrow> py_error + bool" where
  "py_lt a b =
     (case (a, b) of (Some x, Some y) \<Rightarrow> Inr (x < y) | _ \<Rightarrow> Inl TypeError)"

text \<open>
  \<open>max(xs, key=...)\<close>: the first item is the maximum so far, and each later item
  replaces it when its key is greater; an empty list raises \<open>ValueError\<close>.
\<close>

fun max_loop :: "result \<Rightarrow> result list \<Rightarrow> py_error + result" where
  "max_loop m [] = Inr m"
| "max_loop m (x # xs) =
     (case py_lt (get_objective m) (get_objective x) of
        Inl e \<Rightarrow> Inl e
      | Inr b \<Rightarrow> max_loop (if b then x else m) xs)"

definition py_max :: "result list \<Rightarrow> py_error + result" where
  "py_max xs = (case xs of [] \<Rightarrow> Inl ValueError | x # r \<Rightarrow> max_loop x r)"

text \<open>
  The key under which a list is sorted. \<open>list.sort(key=...)\<close> is a stable sort; on a
  list of two or more items every item takes part in a comparison, so a \<open>None\<close> key
  raises \<open>TypeError\<close>; a list of fewer than two items is returned without any
  comparison.
\<close>

definition sort_key_of :: "result \<Rightarrow> pyfloat" where
  "sort_key_of x = (case get_objective x of Some v \<Rightarrow> v | None \<Rightarrow> PosInf)"

definition py_sort :: "result list \<Rightarrow> py_error + result list" where
  "py_sort xs =
     (if 2 \<le> length xs \<and> (\<exists>x \<in> set xs. get_objective x = None) then Inl TypeError
      else Inr (sort_key sort_key_of xs))"

definition update_top_results :: "result list \<Rightarrow> result \<Rightarrow> int \<Rightarrow> py_error + result list" where
  "update_top_results tops new_result top_n =
     (if int (length tops) < top_n then py_sort (tops @ [new_result])
      else
        (case py_max tops of
           Inl e \<Rightarrow> Inl e
         | Inr worst_result \<Rightarrow>
             (case py_lt (get_objective new_result) (get_objective worst_result) of
                Inl e \<Rightarrow> Inl e
              | Inr better \<Rightarrow>
                  if better then py_sort (remove1 worst_result tops @ [new_result])
                  else py_sort tops)))"

text \<open>
  \<open>add_result\<close> assigns the new list and saves; when \<open>update_top_results\<close> raises, the
  assignment never happens and the exception leaves \<open>add_result\<close>.
\<close>

definition add_result :: "handler \<Rightarrow> result \<Rightarrow> int \<Rightarrow> py_error + handler" where
  "add_result h r top_n =
     (case update_top_results (top_results h) r top_n of
        Inl e \<Rightarrow> Inl e
      | Inr ts \<Rightarrow> Inr (save_data (h\<lparr>top_results := ts\<rparr>)))"

definition record_failure :: "handler \<Rightarrow> nat \<Rightarrow> string \<Rightarrow> py_error \<Rightarrow> handler" where
  "record_failure h rid now e =
     save_data (h\<lparr>failed_runs := failed_runs h @ [\<lparr>run_id = rid, timestamp = now, error = e\<rparr>]\<rparr>)"

definition get_top_results :: "handler \<Rightarrow> result list" where
  "get_top_results h = top_results h"

text \<open>
  A sequence of admissions with one capacity. An admission that raises leaves the
  handler as it was.
\<close>

definition admit :: "int \<Rightarrow> result \<Rightarrow> handler \<Rightarrow> handler" where
  "admit top_n r h = (case add_result h r top_n of Inl e \<Rightarrow> h | Inr h' \<Rightarrow> h')"

definition admit_all :: "int \<Rightarrow> result list \<Rightarrow> handler \<Rightarrow> handler" where
  "admit_all top_n rs h = fold (admit top_n) rs h"

text \<open>The order of the leaderboard: ascending by objective, no objective as \<open>+infinity\<close>.\<close>

definition sorted_by_objective :: "result list \<Rightarrow> bool" where
  "sorted_by_objective xs = sorted (map sort_key_of xs)"

section \<open>Strings and the patterns of the log parser\<close>

text \<open>
  A string is a list of characters. The log text is read as ASCII, apart from the
  box-drawing bar of the epoch table, which is its three UTF-8 bytes. \<open>\d\<close> is a
  decimal digit, \<open>\s\<close> a character for which \<open>str.isspace\<close> holds.
\<close>

definition is_digit :: "char \<Rightarrow> bool" where
  "is_digit c = (c \<in> set ''0123456789'')"

definition is_space :: "char \<Rightarrow> bool" where
  "is_space c = (c \<in> set [CHR 0x09, CHR 0x0A, CHR 0x0B, CHR 0x0C, CHR 0x0D,
                            CHR 0x1C, CHR 0x1D, CHR 0x1E, CHR 0x1F, CHR 0x20])"

text \<open>\<open>p in s\<close> on strings.\<close>

fun contains :: "string \<Rightarrow> string \<Rightarrow> bool" where
  "contains p [] = (p = [])"
| "contains p (c # cs) = (prefix p (c # cs) \<or> contains p cs)"

text \<open>\<open>s.split(sep)\<close> for a separator that is not empty.\<close>

function split_sep :: "string \<Rightarrow> string \<Rightarrow> string list" where
  "split_sep sep s =
     (if s = [] then [[]]
      else if sep \<noteq> [] \<and> prefix sep s then [] # split_sep sep (drop (length sep) s)
      else (case split_sep sep (tl s) of
              [] \<Rightarrow> [[hd s]]
            | h # t \<Rightarrow> (hd s # h) # t))"
  by pat_completeness auto
termination
  by (relation "measure (\<lambda>(sep, s). length s)") auto

declare split_sep.simps [simp del]

definition strip :: "string \<Rightarrow> string" where
  "strip s = rev (dropWhile is_space (rev (dropWhile is_space s)))"

text \<open>
  \<open>int(s)\<close> for a string of digits, and \<open>str(n)\<close> for a natural number. The
  interpreter's limit on the number of digits \<open>int\<close> converts is outside the model.
\<close>

definition digit_val :: "char \<Rightarrow> nat" where
  "digit_val c = of_char c - 48"

definition py_int :: "string \<Rightarrow> nat" where
  "py_int s = foldl (\<lambda>n c. 10 * n + digit_val c) 0 s"

fun str_nat :: "nat \<Rightarrow> string" where
  "str_nat n =
     (if n < 10 then [char_of (48 + n)] else str_nat (n div 10) @ [char_of (48 + n mod 10)])"

declare str_nat.simps [simp del]

text \<open>
  \<open>float(s)\<close> for a string of digits, dots and minus signs (all that the patterns
  capture): an optional leading minus, digits with at most one dot, at least one digit.
  \<open>None\<close> is \<open>ValueError\<close>.
\<close>

definition py_float :: "string \<Rightarrow> rat option" where
  "py_float s =
     (let neg = (s \<noteq> [] \<and> hd s = CHR ''-'');
          body = (if neg then tl s else s);
          ip = takeWhile is_digit body;
          rest = dropWhile is_digit body;
          fp = (if rest = [] then [] else tl rest);
          v = of_nat (py_int ip) + of_nat (py_int fp) / 10 ^ length fp
      in if (ip \<noteq> [] \<or> fp \<noteq> [])
            \<and> (rest = [] \<or> (hd rest = CHR ''.'' \<and> list_all is_digit fp))
         then Some (if neg then - v else v)
         else None)"

text \<open>
  The regular expressions of the parser are sequences of literals and of character
  classes under \<open>+\<close> or \<open>*\<close>; every capturing group is one class under \<open>+\<close>
  (\<open>Group\<close>). \<open>rx_match\<close> matches at the start of a string as the backtracking
  matcher of \<open>re\<close> does: a repetition takes the longest run first and gives characters
  back one at a time until the rest of the pattern matches. The result is the list of
  the groups. \<open>re_search\<close> tries the start positions from left to right.
\<close>

datatype piece =
    Lit string
  | One "char \<Rightarrow> bool"
  | Star "char \<Rightarrow> bool"
  | Plus "char \<Rightarrow> bool"
  | Group "char \<Rightarrow> bool"

fun first_some :: "('a \<Rightarrow> 'b option) \<Rightarrow> 'a list \<Rightarrow> 'b option" where
  "first_some f [] = None"
| "first_some f (x # xs) = (case f x of Some y \<Rightarrow> Some y | None \<Rightarrow> first_some f xs)"

definition run_lengths :: "nat \<Rightarrow> (char \<Rightarrow> bool) \<Rightarrow> string \<Rightarrow> nat list" where
  "run_lengths lo p s = rev [lo ..< Suc (length (takeWhile p s))]"

fun rx_match :: "piece list \<Rightarrow> string \<Rightarrow> string list option" where
  "rx_match [] s = Some []"
| "rx_match (Lit l # ps) s = (if prefix l s then rx_match ps (drop (length l) s) else None)"
| "rx_match (One p # ps) s =
     (case s of [] \<Rightarrow> None | c # cs \<Rightarrow> if p c then rx_match ps cs else None)"
| "rx_match (Star p # ps) s = first_some (\<lambda>n. rx_match ps (drop n s)) (run_lengths 0 p s)"
| "rx_match (Plus p # ps) s = first_some (\<lambda>n. rx_match ps (drop n s)) (run_lengths 1 p s)"
| "rx_match (Group p # ps) s =
     first_some (\<lambda>n. map_option ((#) (take n s)) (rx_match ps (drop n s))) (run_lengths 1 p s)"

fun re_search :: "piece list \<Rightarrow> string \<Rightarrow> string list option" where
  "re_search ps [] = rx_match ps []"
| "re_search ps (c # cs) =
     (case rx_match ps (c # cs) of Some g \<Rightarrow> Some g | None \<Rightarrow> re_search ps cs)"

text \<open>The class \<open>[\d.]\<close>.\<close>

definition num_char :: "char \<Rightarrow> bool" where
  "num_char c = (is_digit c \<or> c = CHR ''.'')"

text \<open>\<open>(\d+)\s+trades\<close>\<close>

definition trades_rx :: "piece list" where
  "trades_rx = [Group is_digit, Plus is_space, Lit ''trades'']"

text \<open>\<open>(\d+)/(\d+)/(\d+)\s+Wins/Draws/Losses\<close>\<close>

definition wdl_rx :: "piece list" where
  "wdl_rx = [Group is_digit, Lit ''/'', Group is_digit, Lit ''/'', Group is_digit,
             Plus is_space, Lit ''Wins/Draws/Losses'']"

text \<open>\<open>Avg profit\s+([\d.]+)%\<close> and \<open>Median profit\s+([\d.]+)%\<close>\<close>

definition avg_profit_rx :: "piece list" where
  "avg_profit_rx = [Lit ''Avg profit'', Plus is_space, Group num_char, Lit ''%'']"

definition median_profit_rx :: "piece list" where
  "median_profit_rx = [Lit ''Median profit'', Plus is_space, Group num_char, Lit ''%'']"

text \<open>\<open>Total profit\s+([\d.]+)\s+USDT\<close>\<close>

definition total_profit_rx :: "piece list" where
  "total_profit_rx =
     [Lit ''Total profit'', Plus is_space, Group num_char, Plus is_space, Lit ''USDT'']"

text \<open>\<open>Total profit\s+[\d.]+\s+USDT\s+\(\s*([\d.]+)%\)\<close>\<close>

definition profit_percent_rx :: "piece list" where
  "profit_percent_rx =
     [Lit ''Total profit'', Plus is_space, Plus num_char, Plus is_space, Lit ''USDT'',
      Plus is_space, Lit ''('', Star is_space, Group num_char, Lit ''%)'']"

text \<open>\<open>Avg duration\s+([\d:]+)\s+min\<close>\<close>

definition avg_duration_rx :: "piece list" where
  "avg_duration_rx =
     [Lit ''Avg duration'', Plus is_space, Group (\<lambda>c. is_digit c \<or> c = CHR '':''),
      Plus is_space, Lit ''min'']"

text \<open>\<open>Objective:\s+([-\d.]+)\<close>\<close>

definition objective_rx :: "piece list" where
  "objective_rx =
     [Lit ''Objective:'', Plus is_space,
      Group (\<lambda>c. c = CHR ''-'' \<or> is_digit c \<or> c = CHR ''.'')]"

text \<open>\<open>(\d+)/\d+:\<close>\<close>

definition epoch_rx :: "piece list" where
  "epoch_rx = [Group is_digit, Lit ''/'', Plus is_digit, Lit '':'']"

text \<open>\<open>Max drawdown\s*:\s*([\d.]+)\s+USDT\s*\(\s*([\d.]+)%\)\<close>\<close>

definition max_dd_rx :: "piece list" where
  "max_dd_rx =
     [Lit ''Max drawdown'', Star is_space, Lit '':'', Star is_space, Group num_char,
      Plus is_space, Lit ''USDT'', Star is_space, Lit ''('', Star is_space, Group num_char,
      Lit ''%)'']"

text \<open>\<open>Max drawdown\s*[:\s]+([\d.]+)\<close>\<close>

definition max_dd_rx2 :: "piece list" where
  "max_dd_rx2 =
     [Lit ''Max drawdown'', Star is_space, Plus (\<lambda>c. c = CHR '':'' \<or> is_space c),
      Group num_char]"

section \<open>The log parser (DataHandling.parse_result_data, parse_log_file, extract_data)\<close>

definition empty_metrics :: metrics where
  "empty_metrics = \<lparr>total_trades = None, wins_draws_losses = None, win_rate = None,
     avg_profit = None, median_profit = None, total_profit = None, profit_percent = None,
     avg_duration = None, m_objective = None, max_drawdown = None\<rparr>"

text \<open>Sequencing of steps that may raise.\<close>

definition bind :: "py_error + 'a \<Rightarrow> ('a \<Rightarrow> py_error + 'b) \<Rightarrow> py_error + 'b" where
  "bind r f = (case r of Inl e \<Rightarrow> Inl e | Inr x \<Rightarrow> f x)"

definition to_float :: "string \<Rightarrow> py_error + rat" where
  "to_float s = (case py_float s of None \<Rightarrow> Inl ValueError | Some v \<Rightarrow> Inr v)"

text \<open>
  The eight extractions of \<open>parse_result_data\<close> (\<open>DataHandling.py\<close>, lines 308 to
  361), in the order of the source. Each leaves the dictionary as it is when its pattern
  does not match.
\<close>

definition extract_trades :: "string \<Rightarrow> metrics \<Rightarrow> metrics" where
  "extract_trades line m =
     (case re_search trades_rx line of
        Some [g] \<Rightarrow> m\<lparr>total_trades := Some (py_int g)\<rparr>
      | _ \<Rightarrow> m)"

definition extract_wdl :: "string \<Rightarrow> metrics \<Rightarrow> metrics" where
  "extract_wdl line m =
     (case re_search wdl_rx line of
        Some [g1, g2, g3] \<Rightarrow>
          (let wins = py_int g1; draws = py_int g2; losses = py_int g3;
               total = wins + draws + losses
           in m\<lparr>wins_draws_losses :=
                  Some (str_nat wins @ ''/'' @ str_nat draws @ ''/'' @ str_nat losses),
                win_rate := Some (if total > 0 then of_nat wins / of_nat total else 0)\<rparr>)
      | _ \<Rightarrow> m)"

definition extract_avg_profit :: "string \<Rightarrow> metrics \<Rightarrow> py_error + metrics" where
  "extract_avg_profit line m =
     (case re_search avg_profit_rx line of
        Some [g] \<Rightarrow> bind (to_float g) (\<lambda>v. Inr (m\<lparr>avg_profit := Some v\<rparr>))
      | _ \<Rightarrow> Inr m)"

definition extract_median_profit :: "string \<Rightarrow> metrics \<Rightarrow> py_error + metrics" where
  "extract_median_profit line m =
     (case re_search median_profit_rx line of
        Some [g] \<Rightarrow> bind (to_float g) (\<lambda>v. Inr (m\<lparr>median_profit := Some v\<rparr>))
      | _ \<Rightarrow> Inr m)"

definition extract_total_profit :: "string \<Rightarrow> metrics \<Rightarrow> py_error + metrics" where
  "extract_total_profit line m =
     (case re_search total_profit_rx line of
        Some [g] \<Rightarrow> bind (to_float g) (\<lambda>v. Inr (m\<lparr>total_profit := Some v\<rparr>))
      | _ \<Rightarrow> Inr m)"

definition extract_profit_percent :: "string \<Rightarrow> metrics \<Rightarrow> py_error + metrics" where
  "extract_profit_percent line m =
     (case re_search profit_percent_rx line of
        Some [g] \<Rightarrow> bind (to_float g) (\<lambda>v. Inr (m\<lparr>profit_percent := Some v\<rparr>))
      | _ \<Rightarrow> Inr m)"

definition extract_avg_duration :: "string \<Rightarrow> metrics \<Rightarrow> metrics" where
  "extract_avg_duration line m =
     (case re_search avg_duration_rx line of
        Some [g] \<Rightarrow> m\<lparr>avg_duration := Some g\<rparr>
      | _ \<Rightarrow> m)"

definition extract_objective :: "string \<Rightarrow> metrics \<Rightarrow> py_error + metrics" where
  "extract_objective line m =
     (case re_search objective_rx line of
        Some [g] \<Rightarrow> bind (to_float g) (\<lambda>v. Inr (m\<lparr>m_objective := Some v\<rparr>))
      | _ \<Rightarrow> Inr m)"

definition parse_result_data :: "string \<Rightarrow> py_error + metrics" where
  "parse_result_data best_result_line =
     bind (extract_avg_profit best_result_line
             (extract_wdl best_result_line (extract_trades best_result_line empty_metrics)))
       (\<lambda>m. bind (extract_median_profit best_result_line m)
       (\<lambda>m. bind (extract_total_profit best_result_line m)
       (\<lambda>m. bind (extract_profit_percent best_result_line m)
       (\<lambda>m. extract_objective best_result_line (extract_avg_duration best_result_line m)))))"

text \<open>The bar of the epoch table, U+2502, in UTF-8.\<close>

definition bar :: string where
  "bar = [CHR 0xE2, CHR 0x94, CHR 0x82]"

definition split_lines :: "string \<Rightarrow> string list" where
  "split_lines content = split_sep [CHR 0x0A] content"

text \<open>
  The loop that looks for the data line: at the first line that contains the marker,
  the line two places further if there is one, and the loop ends there either way.
\<close>

fun find_best_result_line :: "string list \<Rightarrow> string option" where
  "find_best_result_line [] = None"
| "find_best_result_line (line # rest) =
     (if contains ''Best result:'' line
      then (case rest of _ # data # _ \<Rightarrow> Some data | _ \<Rightarrow> None)
      else find_best_result_line rest)"

text \<open>
  The three ways to a maximum drawdown. The table lookup takes the first line that
  contains the epoch number followed by \<open>/100\<close> and a bar (the loop over \<open>lines\<close>
  that sets \<open>found_line\<close>), and reads the column of index 9.
\<close>

definition find_epoch_row :: "string list \<Rightarrow> string \<Rightarrow> string option" where
  "find_epoch_row lines epoch_num =
     find (\<lambda>line. contains (epoch_num @ ''/100'') line \<and> contains bar line) lines"

definition table_drawdown :: "string list \<Rightarrow> string \<Rightarrow> string option" where
  "table_drawdown lines epoch_num =
     (case find_epoch_row lines epoch_num of
        None \<Rightarrow> None
      | Some found_line \<Rightarrow>
          (let columns = split_sep bar found_line
           in if length columns > 9
              then (let c = strip (columns ! 9);
                        max_dd_column = (if c = ''--'' then ''0.000 USDT (0.00%)'' else c)
                    in if max_dd_column \<noteq> [] then Some max_dd_column else None)
              else None))"

definition strict_drawdown :: "string \<Rightarrow> string option" where
  "strict_drawdown content =
     (case re_search max_dd_rx content of
        Some [g1, g2] \<Rightarrow> Some (g1 @ '' USDT ('' @ g2 @ ''%)'')
      | _ \<Rightarrow> None)"

definition loose_drawdown :: "string \<Rightarrow> string option" where
  "loose_drawdown content =
     (case re_search max_dd_rx2 content of Some [g] \<Rightarrow> Some g | _ \<Rightarrow> None)"

definition set_max_drawdown :: "string option \<Rightarrow> metrics \<Rightarrow> metrics" where
  "set_max_drawdown d m = (case d of None \<Rightarrow> m | Some v \<Rightarrow> m\<lparr>max_drawdown := Some v\<rparr>)"

text \<open>\<open>run_dir.name\<close>: the last component of the path.\<close>

definition path_name :: "string \<Rightarrow> string" where
  "path_name p = rev (takeWhile (\<lambda>c. c \<noteq> CHR ''/'') (rev p))"

text \<open>
  \<open>parse_log_file\<close> (lines 192 to 306). The scan for the parameter sections (lines 250
  to 297) is not part of the model:
  it raises nothing (\<open>parse_parameters\<close> catches every exception) and writes only the
  \<open>params\<close> entry, which no function modelled here reads.
\<close>

definition parse_log_file :: "string \<Rightarrow> string \<Rightarrow> py_error + result" where
  "parse_log_file content run_dir =
     (let lines = split_lines content in
      case find_best_result_line lines of
        None \<Rightarrow> Inl (RuntimeError ''Could not find Best result data line'')
      | Some best_result_line \<Rightarrow>
          if best_result_line = [] then Inl (RuntimeError ''Could not find Best result data line'')
          else bind (parse_result_data best_result_line) (\<lambda>m0.
            let m = (case re_search epoch_rx best_result_line of
                       Some [epoch_num] \<Rightarrow> set_max_drawdown (table_drawdown lines epoch_num) m0
                     | _ \<Rightarrow>
                         (case strict_drawdown content of
                            Some d \<Rightarrow> m0\<lparr>max_drawdown := Some d\<rparr>
                          | None \<Rightarrow> set_max_drawdown (loose_drawdown content) m0))
            in Inr \<lparr>run = path_name run_dir,
                    profit = (case total_profit m of Some v \<Rightarrow> v | None \<Rightarrow> 0),
                    objective = (case m_objective m of Some v \<Rightarrow> Num (Fin v) | None \<Rightarrow> Null),
                    drawdown = max_drawdown m,
                    metrics = m\<rparr>))"

text \<open>
  \<open>extract_data\<close> (lines 168 to 187); the first argument is the content of
  \<open>hyperopt.log\<close>, if the file exists.
\<close>

definition extract_data :: "string option \<Rightarrow> string \<Rightarrow> py_error + result" where
  "extract_data log_file run_dir =
     (case log_file of
        None \<Rightarrow> Inl (RuntimeError (''hyperopt.log not found in '' @ run_dir))
      | Some content \<Rightarrow>
          if \<not> contains ''Best result:'' content
          then Inl (RuntimeError
            ''Hyperopt completed but found no good results (no Best result section)'')
          else parse_log_file content run_dir)"




section \<open>Waiting for a run (HyperLoop.wait_for_hyperopt_completion)\<close>

text \<open>
  \<open>HyperLoop.py\<close>, lines 135 to 193.
  What one look at the strategy JSON file finds: no file, a file that \<open>open\<close> or
  \<open>read\<close> refuses with \<open>OSError\<close>, or a file that opens, with its content.
\<close>

datatype probe = Absent | Unreadable | Readable string

text \<open>
  One turn of the \<open>while True\<close> loop: what the (up to three) looks at the file find,
  whether the process scan sees a hyperopt process, and the seconds since the start.
\<close>

record round =
  probes :: "nat \<Rightarrow> probe"
  hyperopt_running :: bool
  elapsed :: rat

definition max_retries :: nat where
  "max_retries = 3"

definition MIN_WAIT_BEFORE_PROCESS_CHECK :: rat where
  "MIN_WAIT_BEFORE_PROCESS_CHECK = 60"

text \<open>\<open>f.read(1)\<close>: at most one character of the content.\<close>

definition read1 :: "string \<Rightarrow> string" where
  "read1 content = take 1 content"

text \<open>
  \<open>for attempt in range(max_retries)\<close>, with \<open>k\<close> attempts left. \<open>Inr True\<close>: the
  function returns \<open>run_dir\<close>; \<open>Inr False\<close>: the \<open>for\<close> loop ended.
\<close>

fun check_attempts :: "nat \<Rightarrow> nat \<Rightarrow> string \<Rightarrow> (nat \<Rightarrow> probe) \<Rightarrow> py_error + bool" where
  "check_attempts 0 attempt strategy_json obs = Inr False"
| "check_attempts (Suc k) attempt strategy_json obs =
     (case obs attempt of
        Absent \<Rightarrow> check_attempts k (Suc attempt) strategy_json obs
      | Readable content \<Rightarrow> (let first_char = read1 content in Inr True)
      | Unreadable \<Rightarrow>
          if attempt < max_retries - 1 then check_attempts k (Suc attempt) strategy_json obs
          else Inl (RuntimeError (''Strategy JSON file found but not readable: '' @ strategy_json)))"

text \<open>
  The \<open>while True\<close> loop over the turns observed; \<open>None\<close>: the function is still
  waiting when the observations end.
\<close>

fun wait_for_hyperopt_completion ::
  "string \<Rightarrow> string \<Rightarrow> round list \<Rightarrow> (py_error + string) option" where
  "wait_for_hyperopt_completion run_dir strategy_json [] = None"
| "wait_for_hyperopt_completion run_dir strategy_json (r # rs) =
     (case check_attempts max_retries 0 strategy_json (probes r) of
        Inl e \<Rightarrow> Some (Inl e)
      | Inr True \<Rightarrow> Some (Inr run_dir)
      | Inr False \<Rightarrow>
          if \<not> hyperopt_running r \<and> elapsed r > MIN_WAIT_BEFORE_PROCESS_CHECK
          then Some (Inl (RuntimeError ''Hyperopt completed but produced no strategy JSON file''))
          else wait_for_hyperopt_completion run_dir strategy_json rs)"

section \<open>The campaign (HyperLoop.run_single, HyperLoop.run_loop)\<close>

text \<open>
  \<open>HyperLoop.py\<close>, lines 195 to 211 and 237 to 344.
  The \<open>FAILED\<close> file of a run directory: the JSON failure record that
  \<open>handle_hyperopt_failure\<close> writes, or the bare message that \<open>run_loop\<close> writes.
\<close>

datatype marker = FailureJson failure | Message string

record campaign =
  data :: handler
  markers :: "(string \<times> marker) list"
  successful_runs :: nat

text \<open>
  What the world gives one attempt: the timestamps read (for the run directory, for the
  directory of the \<open>except\<close> branch, for the failure record), an exception of \<open>mkdir\<close>,
  an exception while the window is prepared and started, the turns the watcher observes,
  the content of \<open>hyperopt.log\<close> if the file exists, and the outcome of
  \<open>DataHandling.copy_hyperopt_results\<close>. That last function is called by \<open>run_loop\<close>
  and is not defined in the class: its outcome is an input of the model.
\<close>

record attempt_env =
  started :: string
  failed_at :: string
  now :: string
  mkdir_error :: "py_error option"
  launch_error :: "py_error option"
  rounds :: "round list"
  log_file :: "string option"
  copy_error :: "py_error option"

definition runs_dir :: string where
  "runs_dir = ''HyperLoop/results''"

definition strategy_json_path :: string where
  "strategy_json_path = ''user_data/strategies/strat-name.json''"

definition pad3 :: "nat \<Rightarrow> string" where
  "pad3 n = replicate (3 - length (str_nat n)) CHR ''0'' @ str_nat n"

definition run_dir_of :: "nat \<Rightarrow> string \<Rightarrow> string" where
  "run_dir_of rid ts = runs_dir @ ''/run_'' @ pad3 rid @ ''_'' @ ts"

definition handle_hyperopt_failure ::
  "campaign \<Rightarrow> nat \<Rightarrow> string \<Rightarrow> string \<Rightarrow> py_error \<Rightarrow> campaign" where
  "handle_hyperopt_failure st rid run_dir ts e =
     st\<lparr>markers := markers st @ [(run_dir, FailureJson \<lparr>run_id = rid, timestamp = ts, error = e\<rparr>)],
         data := record_failure (data st) rid ts e\<rparr>"

definition is_RuntimeError :: "py_error \<Rightarrow> bool" where
  "is_RuntimeError e = (case e of RuntimeError _ \<Rightarrow> True | _ \<Rightarrow> False)"

text \<open>
  \<open>run_hyperopt_window\<close>: \<open>except RuntimeError\<close> around the wait only. The result is
  the new state and the run directory (or \<open>None\<close>); \<open>Inl\<close> is an exception that leaves
  the function; the outer \<open>None\<close> is a wait that has not ended.
\<close>

definition run_hyperopt_window ::
  "attempt_env \<Rightarrow> campaign \<Rightarrow> nat \<Rightarrow> string \<Rightarrow> (py_error + campaign \<times> string option) option" where
  "run_hyperopt_window env st rid run_dir =
     (case launch_error env of
        Some e \<Rightarrow> Some (Inl e)
      | None \<Rightarrow>
          (case wait_for_hyperopt_completion run_dir strategy_json_path (rounds env) of
             None \<Rightarrow> None
           | Some (Inr d) \<Rightarrow> Some (Inr (st, Some d))
           | Some (Inl e) \<Rightarrow>
               if is_RuntimeError e
               then Some (Inr (handle_hyperopt_failure st rid run_dir (now env) e, None))
               else Some (Inl e)))"

text \<open>
  \<open>run_single\<close>: \<open>mkdir\<close> stands before the \<open>try\<close>; \<open>except Exception\<close> catches
  everything \<open>run_hyperopt_window\<close> lets through.
\<close>

definition run_single ::
  "attempt_env \<Rightarrow> campaign \<Rightarrow> nat \<Rightarrow> (py_error + campaign \<times> string option) option" where
  "run_single env st rid =
     (case mkdir_error env of
        Some e \<Rightarrow> Some (Inl e)
      | None \<Rightarrow>
          (case run_hyperopt_window env st rid (run_dir_of rid (started env)) of
             None \<Rightarrow> None
           | Some (Inr r) \<Rightarrow> Some (Inr r)
           | Some (Inl e) \<Rightarrow>
               Some (Inr (handle_hyperopt_failure st rid (run_dir_of rid (failed_at env)) (now env) e,
                          None))))"

text \<open>
  The \<open>try\<close> block of the loop body: the state it reaches and the exception that ended
  it, if any. Formatting the objective with \<open>:.2f\<close> raises \<open>TypeError\<close> when it is
  \<open>None\<close>.
\<close>

definition try_block ::
  "attempt_env \<Rightarrow> int \<Rightarrow> campaign \<Rightarrow> string \<Rightarrow> campaign \<times> py_error option" where
  "try_block env top_n st run_dir =
     (case extract_data (log_file env) run_dir of
        Inl e \<Rightarrow> (st, Some e)
      | Inr result \<Rightarrow>
          (let st1 = st\<lparr>successful_runs := successful_runs st + 1\<rparr> in
           if objective result = Null then (st1, Some TypeError)
           else
             (case add_result (data st1) result top_n of
                Inl e \<Rightarrow> (st1, Some e)
              | Inr h \<Rightarrow> (st1\<lparr>data := h\<rparr>, copy_error env))))"

text \<open>
  One turn of \<open>for i in range(1, num_runs + 1)\<close>: \<open>except RuntimeError\<close> writes the
  message into \<open>FAILED\<close>; any other exception leaves \<open>run_loop\<close>.
\<close>

definition loop_body ::
  "attempt_env \<Rightarrow> int \<Rightarrow> campaign \<Rightarrow> nat \<Rightarrow> (py_error + campaign) option" where
  "loop_body env top_n st i =
     (case run_single env st i of
        None \<Rightarrow> None
      | Some (Inl e) \<Rightarrow> Some (Inl e)
      | Some (Inr (st', None)) \<Rightarrow> Some (Inr st')
      | Some (Inr (st', Some run_dir)) \<Rightarrow>
          (case try_block env top_n st' run_dir of
             (st'', None) \<Rightarrow> Some (Inr st'')
           | (st'', Some e) \<Rightarrow>
               (case e of
                  RuntimeError msg \<Rightarrow>
                    Some (Inr (st''\<lparr>markers := markers st'' @ [(run_dir, Message msg)]\<rparr>))
                | _ \<Rightarrow> Some (Inl e))))"

fun run_loop_from ::
  "nat \<Rightarrow> attempt_env list \<Rightarrow> int \<Rightarrow> campaign \<Rightarrow> (py_error + campaign) option" where
  "run_loop_from i [] top_n st = Some (Inr st)"
| "run_loop_from i (env # envs) top_n st =
     (case loop_body env top_n st i of
        None \<Rightarrow> None
      | Some (Inl e) \<Rightarrow> Some (Inl e)
      | Some (Inr st') \<Rightarrow> run_loop_from (Suc i) envs top_n st')"

text \<open>\<open>run_loop\<close> with one environment per run: \<open>num_runs\<close> is their number.\<close>

definition run_loop :: "attempt_env list \<Rightarrow> int \<Rightarrow> handler \<Rightarrow> (py_error + campaign) option" where
  "run_loop envs top_n h =
     run_loop_from 1 envs top_n \<lparr>data = h, markers = [], successful_runs = 0\<rparr>"

section \<open>Sample inputs\<close>

text \<open>A result with a name and an objective entry and nothing else.\<close>

definition res :: "string \<Rightarrow> objective_entry \<Rightarrow> result" where
  "res name ob = \<lparr>run = name, profit = 0, objective = ob, drawdown = None, metrics = empty_metrics\<rparr>"

definition nl :: string where
  "nl = [CHR 0x0A]"

definition found_at_once :: round where
  "found_at_once = \<lparr>probes = (\<lambda>_. Readable ''{}''), hyperopt_running = True, elapsed = 1\<rparr>"

definition good_env :: "string \<Rightarrow> attempt_env" where
  "good_env txt = \<lparr>started = ''t0'', failed_at = ''t1'', now = ''t2'', mkdir_error = None,
     launch_error = None, rounds = [found_at_once], log_file = Some txt, copy_error = None\<rparr>"





definition short_log :: string where
  "short_log = ''Best result:'' @ nl @ ''150 trades''"

definition blank_tail_log :: string where
  "blank_tail_log = ''Best result:'' @ nl @ nl @ ''   ''"


section \<open>The leaderboard: helper lemmas\<close>

lemma less_pyfloat_simps [simp]:
  "(Fin a < Fin b) = (a < b)" "Fin a < PosInf" "\<not> PosInf < x" "NegInf < Fin a" "NegInf < PosInf"
  "\<not> x < NegInf" "\<not> Fin a \<le> NegInf" "x \<le> PosInf"
  by (cases x; auto simp: less_pyfloat_def)+

lemma py_lt_Some [simp]: "py_lt (Some x) (Some y) = Inr (x < y)"
  by (simp add: py_lt_def)

lemma py_lt_err: "py_lt a b = Inl e \<Longrightarrow> e = TypeError"
  by (auto simp: py_lt_def split: option.splits)

lemma py_lt_Inr: "py_lt a b = Inr t \<Longrightarrow> \<exists>x y. a = Some x \<and> b = Some y \<and> t = (x < y)"
  by (auto simp: py_lt_def split: option.splits)

lemma get_objective_Some: "objective x \<noteq> Null \<Longrightarrow> get_objective x = Some (sort_key_of x)"
  by (cases "objective x") (simp_all add: get_objective_def sort_key_of_def)

lemma get_objective_SomeD: "get_objective x = Some v \<Longrightarrow> sort_key_of x = v"
  by (simp add: sort_key_of_def)

lemma get_objective_None: "(get_objective x = None) = (objective x = Null)"
  by (cases "objective x") (simp_all add: get_objective_def)

lemma max_loop_err: "max_loop m xs = Inl e \<Longrightarrow> e = TypeError"
proof (induction xs arbitrary: m)
  case Nil
  then show ?case by simp
next
  case (Cons x xs)
  then show ?case
    by (auto split: sum.splits dest: py_lt_err)
qed

text \<open>What \<open>max\<close> returns has a greatest key among the items of the list.\<close>

lemma max_loop_greatest:
  "max_loop m xs = Inr w \<Longrightarrow>
     w \<in> set (m # xs) \<and> (\<forall>x \<in> set (m # xs). sort_key_of x \<le> sort_key_of w)"
proof (induction xs arbitrary: m)
  case Nil
  then show ?case by simp
next
  case (Cons x xs)
  from Cons.prems obtain b where b: "py_lt (get_objective m) (get_objective x) = Inr b"
    and rec: "max_loop (if b then x else m) xs = Inr w"
    by (auto split: sum.splits)
  from py_lt_Inr [OF b] obtain u v
    where uv: "get_objective m = Some u" "get_objective x = Some v" "b = (u < v)"
    by blast
  then have k: "sort_key_of m = u" "sort_key_of x = v"
    by (simp_all add: get_objective_SomeD)
  from Cons.IH [OF rec] have ih: "w \<in> set ((if b then x else m) # xs)"
    "\<forall>y \<in> set ((if b then x else m) # xs). sort_key_of y \<le> sort_key_of w"
    by blast+
  show ?case
  proof (cases b)
    case True
    with ih uv k show ?thesis by auto
  next
    case False
    with ih uv k show ?thesis by auto
  qed
qed

lemma max_loop_total:
  "\<forall>x \<in> set (m # xs). objective x \<noteq> Null \<Longrightarrow> \<exists>w. max_loop m xs = Inr w"
proof (induction xs arbitrary: m)
  case Nil
  then show ?case by simp
next
  case (Cons x xs)
  then show ?case
    by (simp add: get_objective_Some)
qed

lemma py_max_err_nonempty: "xs \<noteq> [] \<Longrightarrow> py_max xs = Inl e \<Longrightarrow> e = TypeError"
  by (cases xs) (auto simp: py_max_def dest: max_loop_err)

lemma py_max_greatest:
  "py_max xs = Inr w \<Longrightarrow> w \<in> set xs \<and> (\<forall>x \<in> set xs. sort_key_of x \<le> sort_key_of w)"
  by (cases xs) (auto simp: py_max_def dest: max_loop_greatest)

lemma py_max_total:
  "xs \<noteq> [] \<Longrightarrow> \<forall>x \<in> set xs. objective x \<noteq> Null \<Longrightarrow> \<exists>w. py_max xs = Inr w"
  using max_loop_total by (cases xs) (auto simp: py_max_def)

lemma py_sort_Inr: "py_sort xs = Inr ys \<Longrightarrow> ys = sort_key sort_key_of xs"
  by (auto simp: py_sort_def split: if_splits)

lemma py_sort_props:
  "py_sort xs = Inr ys \<Longrightarrow>
     sorted_by_objective ys \<and> length ys = length xs \<and> mset ys = mset xs"
  by (auto simp: sorted_by_objective_def sorted_sort_key dest!: py_sort_Inr)

lemma py_sort_err: "py_sort xs = Inl e \<Longrightarrow> e = TypeError"
  by (auto simp: py_sort_def split: if_splits)

lemma py_sort_total:
  "\<forall>x \<in> set xs. objective x \<noteq> Null \<Longrightarrow> py_sort xs = Inr (sort_key sort_key_of xs)"
  by (auto simp: py_sort_def get_objective_None)

lemma update_length:
  assumes "update_top_results tops r n = Inr ys"
  shows "length ys = (if int (length tops) < n then Suc (length tops) else length tops)"
proof (cases "int (length tops) < n")
  case True
  with assms show ?thesis
    by (auto simp: update_top_results_def dest: py_sort_props)
next
  case False
  with assms obtain w b where w: "py_max tops = Inr w"
    and b: "py_lt (get_objective r) (get_objective w) = Inr b"
    and s: "(if b then py_sort (remove1 w tops @ [r]) else py_sort tops) = Inr ys"
    by (auto simp: update_top_results_def split: sum.splits)
  from py_max_greatest [OF w] have "w \<in> set tops" by simp
  then have "length (remove1 w tops) = length tops - 1" "tops \<noteq> []"
    by (auto simp: length_remove1)
  with s False show ?thesis
    by (cases b) (auto dest!: py_sort_props)
qed

lemma update_sorted: "update_top_results tops r n = Inr ys \<Longrightarrow> sorted_by_objective ys"
  by (auto simp: update_top_results_def split: if_splits sum.splits dest: py_sort_props)

lemma update_returns:
  assumes rankable: "\<forall>x \<in> set (new_result # tops). objective x \<noteq> Null"
    and nonvoid: "tops \<noteq> [] \<or> 0 < top_n"
  shows "\<exists>ys. update_top_results tops new_result top_n = Inr ys"
proof (cases "int (length tops) < top_n")
  case True
  from rankable have "\<forall>x \<in> set (tops @ [new_result]). objective x \<noteq> Null" by auto
  from py_sort_total [OF this] True show ?thesis
    by (simp add: update_top_results_def)
next
  case False
  with nonvoid have ne: "tops \<noteq> []" by auto
  from rankable have rk: "\<forall>x \<in> set tops. objective x \<noteq> Null" by simp
  from py_max_total [OF ne rk] obtain w where w: "py_max tops = Inr w" by blast
  from py_max_greatest [OF w] have win: "w \<in> set tops" by blast
  from rankable win have go: "get_objective new_result = Some (sort_key_of new_result)"
    "get_objective w = Some (sort_key_of w)"
    by (simp_all add: get_objective_Some)
  from rankable have "\<forall>x \<in> set (remove1 w tops @ [new_result]). objective x \<noteq> Null"
    by (auto dest: notin_set_remove1)
  from py_sort_total [OF this] py_sort_total [OF rk] False w go show ?thesis
    by (simp add: update_top_results_def)
qed

lemma save_data_fields [simp]:
  "top_results (save_data h) = top_results h" "failed_runs (save_data h) = failed_runs h"
  by (simp_all add: save_data_def)

lemma admit_board_ok:
  assumes "int (length (top_results h)) \<le> top_n" and "sorted_by_objective (top_results h)"
  shows "int (length (top_results (admit top_n r h))) \<le> top_n
       \<and> sorted_by_objective (top_results (admit top_n r h))"
proof (cases "update_top_results (top_results h) r top_n")
  case (Inl e)
  with assms show ?thesis by (simp add: admit_def add_result_def)
next
  case (Inr ys)
  from update_length [OF Inr] assms have "int (length ys) \<le> top_n"
    by (auto split: if_splits)
  with update_sorted [OF Inr] Inr show ?thesis
    by (simp add: admit_def add_result_def)
qed

lemmas leaderboard_eval =
  admit_all_def admit_def add_result_def update_top_results_def py_sort_def py_max_def
  get_objective_def sort_key_of_def init_def load_data_def clean_data_file_def res_def
  empty_metrics_def
  py_lt_def save_data_def sorted_by_objective_def

section \<open>The leaderboard: claims\<close>

text \<open>
  Claim C1. For every sequence of results admitted with capacity \<open>top_n\<close>, starting
  from a board that holds at most \<open>top_n\<close> entries in ascending order of objective (the
  empty board of a fresh start is one), the board never holds more than \<open>top_n\<close>
  entries and stays sorted ascending by objective, an entry without an objective
  counting as \<open>+infinity\<close>. The sequence is arbitrary, so this holds after every
  admission; an admission that raises leaves the board as it was.
\<close>

theorem top_results_bounded_sorted:
  assumes "int (length (top_results h)) \<le> top_n" and "sorted_by_objective (top_results h)"
  shows "int (length (top_results (admit_all top_n rs h))) \<le> top_n
       \<and> sorted_by_objective (top_results (admit_all top_n rs h))"
  using assms unfolding admit_all_def
proof (induction rs arbitrary: h)
  case Nil
  then show ?case by simp
next
  case (Cons r rs)
  from admit_board_ok [OF Cons.prems] Cons.IH [of "admit top_n r h"] show ?case
    by simp
qed

theorem top_results_bounded_sorted_witness:
  "int (length (top_results (init NoFile True))) \<le> 2
   \<and> sorted_by_objective (top_results (init NoFile True))
   \<and> int (length (top_results (admit_all 2
        [res ''a'' (Num (Fin 3)), res ''b'' Missing, res ''c'' (Num (Fin 1)), res ''d'' Null]
        (init NoFile True)))) \<le> 2
   \<and> sorted_by_objective (top_results (admit_all 2
        [res ''a'' (Num (Fin 3)), res ''b'' Missing, res ''c'' (Num (Fin 1)), res ''d'' Null]
        (init NoFile True)))
   \<and> map objective (top_results (admit_all 2
        [res ''a'' (Num (Fin 3)), res ''b'' Missing, res ''c'' (Num (Fin 1)), res ''d'' Null]
        (init NoFile True))) = [Num (Fin 1), Num (Fin 3)]"
proof -
  have h: "int (length (top_results (init NoFile True))) \<le> 2"
    "sorted_by_objective (top_results (init NoFile True))"
    by (simp_all add: leaderboard_eval)
  have v: "map objective (top_results (admit_all 2
        [res ''a'' (Num (Fin 3)), res ''b'' Missing, res ''c'' (Num (Fin 1)), res ''d'' Null]
        (init NoFile True))) = [Num (Fin 1), Num (Fin 3)]"
    by (simp add: leaderboard_eval)
  from h v top_results_bounded_sorted [OF h,
      of "[res ''a'' (Num (Fin 3)), res ''b'' Missing, res ''c'' (Num (Fin 1)), res ''d'' Null]"]
  show ?thesis by blast
qed

text \<open>
  The admission rule for objectives that are numbers or missing (none a present
  \<open>None\<close>), the board being non-empty or the capacity positive:
  \<open>update_top_results\<close> returns a list. Below capacity the candidate is added. At
  capacity the worst entry \<open>w\<close> (what \<open>max\<close> returns: an entry of greatest
  objective) is compared with the candidate: a strictly lower candidate replaces exactly
  that entry; otherwise the entries are unchanged (and the list itself, when it was
  sorted). So the candidate is admitted if and only if the board is below capacity or
  the candidate is strictly lower than the worst entry.
\<close>

theorem admission_rule:
  assumes rankable: "\<forall>x \<in> set (new_result # tops). objective x \<noteq> Null"
    and nonvoid: "tops \<noteq> [] \<or> 0 < top_n"
  shows "\<exists>ys. update_top_results tops new_result top_n = Inr ys \<and>
     (if int (length tops) < top_n then mset ys = add_mset new_result (mset tops)
      else \<exists>w. py_max tops = Inr w \<and> w \<in> set tops
             \<and> (\<forall>x \<in> set tops. sort_key_of x \<le> sort_key_of w)
             \<and> (if sort_key_of new_result < sort_key_of w
                 then mset ys = add_mset new_result (mset tops - {#w#})
                 else mset ys = mset tops \<and> (sorted_by_objective tops \<longrightarrow> ys = tops)))
     \<and> ((count (mset ys) new_result = Suc (count (mset tops) new_result))
        = (int (length tops) < top_n
           \<or> (\<exists>w. py_max tops = Inr w \<and> sort_key_of new_result < sort_key_of w)))"
proof (cases "int (length tops) < top_n")
  case True
  from rankable have "py_sort (tops @ [new_result]) = Inr (sort_key sort_key_of (tops @ [new_result]))"
    by (intro py_sort_total) auto
  with True show ?thesis
    by (simp add: update_top_results_def)
next
  case False
  with nonvoid have ne: "tops \<noteq> []" by auto
  from rankable have rk: "\<forall>x \<in> set tops. objective x \<noteq> Null" by simp
  from py_max_total [OF ne rk] obtain w where w: "py_max tops = Inr w" by blast
  from py_max_greatest [OF w] have win: "w \<in> set tops"
    and wmax: "\<forall>x \<in> set tops. sort_key_of x \<le> sort_key_of w" by blast+
  from rankable win have go: "get_objective new_result = Some (sort_key_of new_result)"
    "get_objective w = Some (sort_key_of w)"
    by (simp_all add: get_objective_Some)
  show ?thesis
  proof (cases "sort_key_of new_result < sort_key_of w")
    case True
    then have neq: "new_result \<noteq> w" by auto
    from rankable have "\<forall>x \<in> set (remove1 w tops @ [new_result]). objective x \<noteq> Null"
      by (auto dest: notin_set_remove1)
    from py_sort_total [OF this] True False w win wmax go neq show ?thesis
      by (simp add: update_top_results_def)
  next
    case b: False
    have "sorted_by_objective tops \<longrightarrow> sort_key sort_key_of tops = tops"
      by (simp add: sorted_by_objective_def sort_key_id_if_sorted)
    with py_sort_total [OF rk] b False w win wmax go show ?thesis
      by (simp add: update_top_results_def)
  qed
qed

theorem admission_rule_witness:
  "list_all (\<lambda>x. objective x \<noteq> Null)
     [res ''c'' (Num (Fin 2)), res ''a'' (Num (Fin 1)), res ''b'' (Num (Fin 3))]
   \<and> [res ''a'' (Num (Fin 1)), res ''b'' (Num (Fin 3))] \<noteq> []
   \<and> update_top_results [res ''a'' (Num (Fin 1)), res ''b'' (Num (Fin 3))] (res ''c'' (Num (Fin 2))) 2
       = Inr [res ''a'' (Num (Fin 1)), res ''c'' (Num (Fin 2))]
   \<and> update_top_results [res ''a'' (Num (Fin 1)), res ''b'' (Num (Fin 3))] (res ''d'' Missing) 2
       = Inr [res ''a'' (Num (Fin 1)), res ''b'' (Num (Fin 3))]"
  using admission_rule [of "res ''c'' (Num (Fin 2))" "[res ''a'' (Num (Fin 1)), res ''b'' (Num (Fin 3))]" 2]
  by (simp add: leaderboard_eval)

text \<open>
  Claim C2 (a candidate is admitted if and only if the board holds fewer than \<open>top_n\<close>
  entries or its objective, a missing one counting as \<open>+infinity\<close>, is strictly
  lower than the worst entry's) does not hold of the code for a candidate without
  objective as \<open>parse_log_file\<close> builds it, the key present with the value
  \<open>None\<close>: \<open>get\<close> returns \<open>None\<close>, not the default, and below capacity the
  candidate is not admitted: the sort raises \<open>TypeError\<close>.
\<close>

theorem admission_raises_on_none:
  "int (length [res ''a'' (Num (Fin 1))]) < 2
   \<and> update_top_results [res ''a'' (Num (Fin 1))] (res ''b'' Null) 2 = Inl TypeError"
  by (simp add: leaderboard_eval)

text \<open>
  For every capacity \<open>top_n \<ge> 1\<close> and every board, \<open>update_top_results\<close> never
  raises the empty-sequence error of \<open>max\<close> (\<open>ValueError\<close>): \<open>max\<close> is only
  reached on a non-empty board. It returns a list whenever no objective of the
  candidate or the board is a present \<open>None\<close>.
\<close>

theorem update_never_empty_max:
  assumes "1 \<le> top_n"
  shows "update_top_results tops new_result top_n \<noteq> Inl ValueError
       \<and> ((\<forall>x \<in> set (new_result # tops). objective x \<noteq> Null)
            \<longrightarrow> (\<exists>ys. update_top_results tops new_result top_n = Inr ys))"
proof
  show "update_top_results tops new_result top_n \<noteq> Inl ValueError"
  proof
    assume a: "update_top_results tops new_result top_n = Inl ValueError"
    show False
    proof (cases "int (length tops) < top_n")
      case True
      with a show False by (auto simp: update_top_results_def dest: py_sort_err)
    next
      case False
      with assms have ne: "tops \<noteq> []" by auto
      from a False show False
        by (auto simp: update_top_results_def split: sum.splits if_splits
            dest: py_sort_err py_lt_err py_max_err_nonempty [OF ne])
    qed
  qed
next
  from assms have "tops \<noteq> [] \<or> 0 < top_n" by simp
  then show "(\<forall>x \<in> set (new_result # tops). objective x \<noteq> Null)
            \<longrightarrow> (\<exists>ys. update_top_results tops new_result top_n = Inr ys)"
    using update_returns [of new_result tops top_n] by blast
qed

theorem update_never_empty_max_witness:
  "(1::int) \<le> 1
   \<and> update_top_results [] (res ''a'' (Num (Fin 1))) 1 \<noteq> Inl ValueError
   \<and> update_top_results [] (res ''a'' (Num (Fin 1))) 1 = Inr [res ''a'' (Num (Fin 1))]
   \<and> update_top_results [res ''a'' (Num (Fin 1))] (res ''b'' (Num (Fin 0))) 1 = Inr [res ''b'' (Num (Fin 0))]"
  using update_never_empty_max [of 1 "[]" "res ''a'' (Num (Fin 1))"]
  by (simp add: leaderboard_eval)

text \<open>
  Claim C9 (for every capacity \<open>top_n \<ge> 1\<close> and every board of at most \<open>top_n\<close>
  entries \<open>update_top_results\<close> returns without raising) does not hold of the code:
  at capacity 1, for a candidate whose objective is a present \<open>None\<close>, the
  comparison with the worst entry raises \<open>TypeError\<close>.
\<close>

theorem update_raises_on_none:
  "(1::int) \<le> 1 \<and> int (length [res ''a'' (Num (Fin 1))]) \<le> 1
   \<and> update_top_results [res ''a'' (Num (Fin 1))] (res ''b'' Null) 1 = Inl TypeError"
  by (simp add: leaderboard_eval)

text \<open>
  Claim C10. \<open>record_failure\<close> appends exactly one failure record to \<open>failed_runs\<close>
  and leaves \<open>top_results\<close> as it is; \<open>add_result\<close>, when it returns, has replaced
  \<open>top_results\<close> by the list of \<open>update_top_results\<close> and left \<open>failed_runs\<close> as
  it is.
\<close>

theorem mutators_frame:
  "failed_runs (record_failure h rid ts e) = failed_runs h @ [\<lparr>run_id = rid, timestamp = ts, error = e\<rparr>]
   \<and> top_results (record_failure h rid ts e) = top_results h
   \<and> (\<forall>h'. add_result h r top_n = Inr h' \<longrightarrow>
        failed_runs h' = failed_runs h
        \<and> update_top_results (top_results h) r top_n = Inr (top_results h'))"
  by (auto simp: record_failure_def add_result_def split: sum.splits)

theorem mutators_frame_witness:
  "add_result (record_failure (init NoFile True) 1 ''t'' (RuntimeError ''x'')) (res ''a'' (Num (Fin 1))) 2
     = Inr \<lparr>top_results = [res ''a'' (Num (Fin 1))],
            failed_runs = [\<lparr>run_id = 1, timestamp = ''t'', error = RuntimeError ''x''\<rparr>],
            results_file = Document [res ''a'' (Num (Fin 1))] [\<lparr>run_id = 1, timestamp = ''t'', error = RuntimeError ''x''\<rparr>],
            writable = True\<rparr>
   \<and> failed_runs (record_failure (init NoFile True) 1 ''t'' (RuntimeError ''x''))
       = [\<lparr>run_id = 1, timestamp = ''t'', error = RuntimeError ''x''\<rparr>]"
  using mutators_frame [of "init NoFile True" 1 "''t''" "RuntimeError ''x''" "res ''a'' (Num (Fin 1))" 2]
  by (simp add: leaderboard_eval record_failure_def)


section \<open>Start-up: claim\<close>



section \<open>The log parser: helper lemmas and claims\<close>



lemma bind_Inl_iff: "(bind r f = Inl e) = (r = Inl e \<or> (\<exists>x. r = Inr x \<and> f x = Inl e))"
  by (cases r) (simp_all add: bind_def)

lemma to_float_Inl: "to_float s = Inl e \<Longrightarrow> e = ValueError"
  by (simp add: to_float_def split: option.splits)










lemma extract_float_Inl:
  "extract_avg_profit l m = Inl e \<Longrightarrow> e = ValueError"
  "extract_median_profit l m = Inl e \<Longrightarrow> e = ValueError"
  "extract_total_profit l m = Inl e \<Longrightarrow> e = ValueError"
  "extract_profit_percent l m = Inl e \<Longrightarrow> e = ValueError"
  "extract_objective l m = Inl e \<Longrightarrow> e = ValueError"
  by (auto simp: extract_avg_profit_def extract_median_profit_def extract_total_profit_def
      extract_profit_percent_def extract_objective_def bind_Inl_iff
      split: option.splits list.splits dest: to_float_Inl)

lemma bind_ValueError:
  assumes "bind r f = Inl e"
    and "\<And>e. r = Inl e \<Longrightarrow> e = ValueError"
    and "\<And>x e. f x = Inl e \<Longrightarrow> e = ValueError"
  shows "e = ValueError"
  using assms by (cases r) (auto simp: bind_def)

lemma parse_result_data_Inl: "parse_result_data l = Inl e \<Longrightarrow> e = ValueError"
  unfolding parse_result_data_def
  apply (erule bind_ValueError, erule extract_float_Inl(1))
  apply (erule bind_ValueError, erule extract_float_Inl(2))
  apply (erule bind_ValueError, erule extract_float_Inl(3))
  apply (erule bind_ValueError, erule extract_float_Inl(4))
  apply (erule extract_float_Inl(5))
  done










lemma contains_Nil [simp]: "contains [] s"
  by (cases s) simp_all

lemma split_sep_not_Nil [simp]: "split_sep sep s \<noteq> []"
  by (subst split_sep.simps) (auto split: list.splits)

lemma split_sep_char_Nil [simp]: "split_sep [n] [] = [[]]"
  by (subst split_sep.simps) simp

lemma split_sep_char_Cons_eq:
  "split_sep [n] (c # cs) =
     (if c = n then [] # split_sep [n] cs
      else (c # hd (split_sep [n] cs)) # tl (split_sep [n] cs))"
  by (subst split_sep.simps) (auto split: list.splits)

lemma hd_split_sep_char: "hd (split_sep [n] s) = takeWhile (\<lambda>c. c \<noteq> n) s"
  by (induction s) (simp_all add: split_sep_char_Cons_eq)

lemma prefix_takeWhile:
  "prefix p s \<Longrightarrow> n \<notin> set p \<Longrightarrow> prefix p (takeWhile (\<lambda>c. c \<noteq> n) s)"
proof (induction p arbitrary: s)
  case Nil
  then show ?case by simp
next
  case (Cons a p)
  then show ?case by (cases s) auto
qed

lemma contains_split_sep_char:
  "contains p s \<Longrightarrow> n \<notin> set p \<Longrightarrow> \<exists>l \<in> set (split_sep [n] s). contains p l"
proof (induction s)
  case Nil
  then show ?case by simp
next
  case (Cons c cs)
  show ?case
  proof (cases "prefix p (c # cs)")
    case True
    show ?thesis
    proof (cases "c = n")
      case cn: True
      with True Cons.prems(2) have "p = []" by (cases p) auto
      then show ?thesis by (auto simp: split_sep_char_Cons_eq)
    next
      case False
      from prefix_takeWhile [OF True Cons.prems(2)] False
      have "prefix p (c # hd (split_sep [n] cs))"
        by (simp add: hd_split_sep_char)
      then have "contains p (c # hd (split_sep [n] cs))" by simp
      with False show ?thesis by (simp add: split_sep_char_Cons_eq)
    qed
  next
    case False
    with Cons.prems have "contains p cs" by simp
    from Cons.IH [OF this Cons.prems(2)] obtain l
      where l: "l \<in> set (split_sep [n] cs)" "contains p l" by blast
    show ?thesis
    proof (cases "c = n")
      case True
      with l show ?thesis by (auto simp: split_sep_char_Cons_eq)
    next
      case cn: False
      have ne: "split_sep [n] cs \<noteq> []" by simp
      then have "split_sep [n] cs = hd (split_sep [n] cs) # tl (split_sep [n] cs)" by simp
      with l(1) have "l = hd (split_sep [n] cs) \<or> l \<in> set (tl (split_sep [n] cs))"
        by (metis set_ConsD)
      then show ?thesis
      proof
        assume "l = hd (split_sep [n] cs)"
        with l(2) have "contains p (c # hd (split_sep [n] cs))" by simp
        with cn show ?thesis by (simp add: split_sep_char_Cons_eq)
      next
        assume "l \<in> set (tl (split_sep [n] cs))"
        with l(2) cn show ?thesis by (auto simp: split_sep_char_Cons_eq)
      qed
    qed
  qed
qed

lemma marker_line_exists:
  assumes "contains ''Best result:'' content"
  shows "\<exists>i < length (split_lines content).
           contains ''Best result:'' (split_lines content ! i)
           \<and> (\<forall>j < i. \<not> contains ''Best result:'' (split_lines content ! j))"
proof -
  have "CHR 0x0A \<notin> set ''Best result:''" by simp
  from contains_split_sep_char [OF assms this]
  have "\<exists>l \<in> set (split_lines content). contains ''Best result:'' l"
    by (simp add: split_lines_def)
  then have "find (contains ''Best result:'') (split_lines content) \<noteq> None"
    by (auto simp: find_None_iff)
  then obtain x where "find (contains ''Best result:'') (split_lines content) = Some x"
    by blast
  then show ?thesis
    unfolding find_Some_iff by blast
qed

lemma find_best_result_line_at:
  "i < length lines \<Longrightarrow> contains ''Best result:'' (lines ! i) \<Longrightarrow>
   (\<forall>j < i. \<not> contains ''Best result:'' (lines ! j)) \<Longrightarrow>
   find_best_result_line lines = (if i + 2 < length lines then Some (lines ! (i + 2)) else None)"
proof (induction lines arbitrary: i)
  case Nil
  then show ?case by simp
next
  case (Cons line rest)
  show ?case
  proof (cases i)
    case 0
    with Cons.prems show ?thesis
      by (cases rest; cases "tl rest") auto
  next
    case (Suc k)
    with Cons.prems have "\<not> contains ''Best result:'' line" by auto
    moreover from Suc Cons.prems have "k < length rest" "contains ''Best result:'' (rest ! k)"
      "\<forall>j < k. \<not> contains ''Best result:'' (rest ! j)" by auto
    ultimately show ?thesis
      using Cons.IH [of k] Suc by simp
  qed
qed

lemma parse_log_file_RuntimeError:
  "(parse_log_file content run_dir = Inl (RuntimeError msg))
     = (msg = ''Could not find Best result data line''
        \<and> (find_best_result_line (split_lines content) = None
           \<or> find_best_result_line (split_lines content) = Some []))"
proof (cases "find_best_result_line (split_lines content)")
  case None
  then show ?thesis by (auto simp: parse_log_file_def)
next
  case (Some line)
  show ?thesis
  proof (cases "line = []")
    case True
    with Some show ?thesis by (auto simp: parse_log_file_def)
  next
    case False
    have "parse_log_file content run_dir \<noteq> Inl (RuntimeError msg)"
    proof
      assume "parse_log_file content run_dir = Inl (RuntimeError msg)"
      with Some False have "parse_result_data line = Inl (RuntimeError msg)"
        by (auto simp: parse_log_file_def Let_def bind_Inl_iff)
      from parse_result_data_Inl [OF this] show False by simp
    qed
    with Some False show ?thesis by simp
  qed
qed

text \<open>
  Claim C4, amended. \<open>extract_data\<close> fails with \<open>RuntimeError\<close> (message
  \<open>Hyperopt completed but found no good results (no Best result section)\<close>) when the
  text does not contain \<open>Best result:\<close>. When the marker is present, it fails with
  \<open>RuntimeError\<close> and the different message \<open>Could not find Best result data line\<close>
  exactly when the line two places after the first line containing the marker does not
  exist or is the empty string; any other line at that place is taken as the result
  line. The two failures are the same kind of exception and differ in their message only.
\<close>

theorem extract_data_failures:
  "(\<not> contains ''Best result:'' content \<longrightarrow>
      extract_data (Some content) run_dir
        = Inl (RuntimeError ''Hyperopt completed but found no good results (no Best result section)''))
   \<and> (contains ''Best result:'' content \<longrightarrow>
        (\<exists>i < length (split_lines content).
            contains ''Best result:'' (split_lines content ! i)
          \<and> (\<forall>j < i. \<not> contains ''Best result:'' (split_lines content ! j))
          \<and> (extract_data (Some content) run_dir
                = Inl (RuntimeError ''Could not find Best result data line''))
              = (\<not> i + 2 < length (split_lines content) \<or> split_lines content ! (i + 2) = [])))
   \<and> ''Hyperopt completed but found no good results (no Best result section)''
        \<noteq> ''Could not find Best result data line''"
proof (intro conjI impI)
  assume "\<not> contains ''Best result:'' content"
  then show "extract_data (Some content) run_dir
        = Inl (RuntimeError ''Hyperopt completed but found no good results (no Best result section)'')"
    by (simp add: extract_data_def)
next
  assume c: "contains ''Best result:'' content"
  from marker_line_exists [OF c] obtain i where i: "i < length (split_lines content)"
    "contains ''Best result:'' (split_lines content ! i)"
    "\<forall>j < i. \<not> contains ''Best result:'' (split_lines content ! j)"
    by blast
  from find_best_result_line_at [OF i]
  have f: "find_best_result_line (split_lines content)
      = (if i + 2 < length (split_lines content) then Some (split_lines content ! (i + 2)) else None)" .
  have "(extract_data (Some content) run_dir
                = Inl (RuntimeError ''Could not find Best result data line''))
              = (\<not> i + 2 < length (split_lines content) \<or> split_lines content ! (i + 2) = [])"
    using c by (simp add: extract_data_def parse_log_file_RuntimeError f)
  with i show "\<exists>i < length (split_lines content).
            contains ''Best result:'' (split_lines content ! i)
          \<and> (\<forall>j < i. \<not> contains ''Best result:'' (split_lines content ! j))
          \<and> (extract_data (Some content) run_dir
                = Inl (RuntimeError ''Could not find Best result data line''))
              = (\<not> i + 2 < length (split_lines content) \<or> split_lines content ! (i + 2) = [])"
    by blast
next
  show "''Hyperopt completed but found no good results (no Best result section)''
        \<noteq> ''Could not find Best result data line''"
    by simp
qed

theorem extract_data_failures_witness:
  "\<not> contains ''Best result:'' ''Epoch details''
   \<and> extract_data (Some ''Epoch details'') ''results/run_001''
        = Inl (RuntimeError ''Hyperopt completed but found no good results (no Best result section)'')
   \<and> contains ''Best result:'' short_log
   \<and> split_lines short_log = [''Best result:'', ''150 trades'']
   \<and> extract_data (Some short_log) ''results/run_001''
        = Inl (RuntimeError ''Could not find Best result data line'')"
proof -
  have a: "\<not> contains ''Best result:'' ''Epoch details''"
    "contains ''Best result:'' short_log"
    by code_simp+
  have l: "split_lines short_log = [''Best result:'', ''150 trades'']"
    by code_simp
  from a(1) extract_data_failures [of "''Epoch details''" "''results/run_001''"]
  have b: "extract_data (Some ''Epoch details'') ''results/run_001''
        = Inl (RuntimeError ''Hyperopt completed but found no good results (no Best result section)'')"
    by blast
  from a(2) extract_data_failures [of short_log "''results/run_001''"]
  obtain i where "i < length (split_lines short_log)"
    and "(extract_data (Some short_log) ''results/run_001''
                = Inl (RuntimeError ''Could not find Best result data line''))
          = (\<not> i + 2 < length (split_lines short_log)
             \<or> split_lines short_log ! (i + 2) = [])"
    by blast
  then have "extract_data (Some short_log) ''results/run_001''
        = Inl (RuntimeError ''Could not find Best result data line'')"
    by (simp add: l)
  with a b l show ?thesis by blast
qed

text \<open>
  The claim as stated fails on a text whose marker is followed by blank lines only, the
  second of them three spaces: no non-blank line follows the marker, and the extraction
  succeeds with an empty result. Both failures of the claim are \<open>RuntimeError\<close>.
\<close>

theorem extract_data_failures_counterexample:
  "contains ''Best result:'' blank_tail_log
   \<and> split_lines blank_tail_log = [''Best result:'', [], ''   '']
   \<and> strip [] = [] \<and> strip ''   '' = []
   \<and> extract_data (Some blank_tail_log) ''results/run_001''
        = Inr \<lparr>run = ''run_001'', profit = 0, objective = Null, drawdown = None,
               metrics = empty_metrics\<rparr>
   \<and> is_RuntimeError (RuntimeError ''Hyperopt completed but found no good results (no Best result section)'')
   \<and> is_RuntimeError (RuntimeError ''Could not find Best result data line'')"
  by code_simp

lemma max_drawdown_set [simp]:
  "max_drawdown (set_max_drawdown d m) = (case d of None \<Rightarrow> max_drawdown m | Some v \<Rightarrow> Some v)"
  by (simp add: set_max_drawdown_def split: option.splits)









section \<open>The watcher: claim\<close>

lemma check_attempts_unrolled:
  "check_attempts max_retries 0 j obs =
     (case obs 0 of
        Readable c \<Rightarrow> Inr True
      | _ \<Rightarrow>
        (case obs 1 of
           Readable c \<Rightarrow> Inr True
         | _ \<Rightarrow>
           (case obs 2 of
              Readable c \<Rightarrow> Inr True
            | Unreadable \<Rightarrow> Inl (RuntimeError (''Strategy JSON file found but not readable: '' @ j))
            | Absent \<Rightarrow> Inr False)))"
  by (simp add: max_retries_def eval_nat_numeral split: probe.splits)

lemma some_readable:
  "(\<exists>k<3. \<exists>c. obs k = Readable c)
     = ((\<exists>c. obs 0 = Readable c) \<or> (\<exists>c. obs (Suc 0) = Readable c) \<or> (\<exists>c. obs 2 = Readable c))"
proof -
  have "\<And>k::nat. (k < 3) = (k = 0 \<or> k = Suc 0 \<or> k = 2)" by auto
  then show ?thesis by auto
qed

lemma check_attempts_eq:
  "check_attempts max_retries 0 j obs =
     (if \<exists>k<3. \<exists>c. obs k = Readable c then Inr True
      else if obs 2 = Unreadable
        then Inl (RuntimeError (''Strategy JSON file found but not readable: '' @ j))
      else Inr False)"
  unfolding check_attempts_unrolled some_readable
  by (cases "obs 0"; cases "obs (Suc 0)"; cases "obs 2") simp_all

text \<open>
  Claim C8, amended. In one turn of the watcher, completion is declared when one of the
  three looks finds the file and can open and read it; what is read is not inspected,
  so an empty file completes. Otherwise, when the last look finds the file unreadable,
  the watcher fails with \<open>Strategy JSON file found but not readable\<close>; an unreadable
  file at an earlier look is looked at again (at most two retries in a turn).
  Otherwise the process check decides between failing for want of the file and the next
  turn.
\<close>

theorem completion_check:
  "wait_for_hyperopt_completion run_dir j (r # rs) =
     (if \<exists>k<3. \<exists>c. probes r k = Readable c then Some (Inr run_dir)
      else if probes r 2 = Unreadable
        then Some (Inl (RuntimeError (''Strategy JSON file found but not readable: '' @ j)))
      else if \<not> hyperopt_running r \<and> elapsed r > 60
        then Some (Inl (RuntimeError ''Hyperopt completed but produced no strategy JSON file''))
      else wait_for_hyperopt_completion run_dir j rs)"
  by (auto simp: check_attempts_eq MIN_WAIT_BEFORE_PROCESS_CHECK_def)

text \<open>
  The claim as stated fails for an empty file: \<open>read(1)\<close> yields no character and
  completion is declared. And a file first seen at the third look, unreadable, fails
  the watcher without any retry.
\<close>

theorem completion_check_counterexample:
  "read1 '''' = ''''
   \<and> wait_for_hyperopt_completion ''results/run_001'' strategy_json_path
        [\<lparr>probes = (\<lambda>_. Readable ''''), hyperopt_running = True, elapsed = 1\<rparr>]
      = Some (Inr ''results/run_001'')
   \<and> wait_for_hyperopt_completion ''results/run_001'' strategy_json_path
        [\<lparr>probes = (\<lambda>k. if k = 2 then Unreadable else Absent), hyperopt_running = True, elapsed = 1\<rparr>]
      = Some (Inl (RuntimeError
          ''Strategy JSON file found but not readable: user_data/strategies/strat-name.json''))"
  by code_simp

section \<open>The campaign: claim\<close>

text \<open>
  Claim C6 does not hold of \<open>run_loop\<close>. Two runs whose logs have no \<open>Best result:\<close>
  marker: the \<open>RuntimeError\<close> of the extraction is caught and the message is written
  to \<open>FAILED\<close>, but no failure record is kept (\<open>failed_runs\<close> stays empty), unlike
  \<open>handle_hyperopt_failure\<close>. A first run whose result line has no objective:
  formatting \<open>None\<close> raises \<open>TypeError\<close>, which \<open>except RuntimeError\<close> does not
  catch, and the campaign ends before the second run. A first run whose objective is a
  malformed number: \<open>float\<close> raises \<open>ValueError\<close>, with the same end.
\<close>

theorem run_loop_failing_inputs:
  "run_loop [good_env ''no marker'', good_env ''no marker''] 10 (init NoFile True)
     = Some (Inr \<lparr>data = init NoFile True,
          markers = [(''HyperLoop/results/run_001_t0'',
                      Message ''Hyperopt completed but found no good results (no Best result section)''),
                     (''HyperLoop/results/run_002_t0'',
                      Message ''Hyperopt completed but found no good results (no Best result section)'')],
          successful_runs = 0\<rparr>)
   \<and> failed_runs (init NoFile True) = []
   \<and> run_loop [good_env (''Best result:'' @ nl @ nl @ ''10 trades''), good_env ''no marker'']
         10 (init NoFile True) = Some (Inl TypeError)
   \<and> run_loop [good_env (''Best result:'' @ nl @ nl @ ''10 trades. Objective: 1.2.3''),
                good_env ''no marker'']
         10 (init NoFile True) = Some (Inl ValueError)"
  by code_simp

end
